theory Spec2Isabelle
  imports Main "HOL-Library.Word"
begin

unbundle bit_operations_syntax

chapter \<open>The content-addressable store of the storage manager\<close>

text \<open>
  The storage manager (\<^verbatim>\<open>storageManager.ts\<close>) stores byte payloads in Google Cloud
  Storage under a name derived from the SHA-256 digest of the payload. Its functions are
  \<^verbatim>\<open>storeContent\<close>, \<^verbatim>\<open>retrieveContent\<close>, \<^verbatim>\<open>generateContentHash\<close> and three wrappers.
  They rest on three libraries that are not part of the repository: Node's \<^verbatim>\<open>Buffer\<close>
  (UTF-8 encoding of strings), Node's \<^verbatim>\<open>crypto\<close> (SHA-256) and the client of Google Cloud
  Storage. Each is modelled below by what it is documented to compute.
\<close>

section \<open>Bytes, strings and \<^verbatim>\<open>Buffer.from\<close>\<close>

type_synonym byte = "8 word"
type_synonym u32 = "32 word"

text \<open>
  A JavaScript string is a sequence of UTF-16 code units. Names (bucket, path, extension,
  content type, hex digest) are only concatenated and compared by the code, so they are
  plain \<open>string\<close>s; a payload given as a string is encoded to bytes, so it keeps its
  code units.
\<close>

type_synonym js_string = "16 word list"

text \<open>
  \<^verbatim>\<open>Buffer.from(s)\<close> encodes a string in UTF-8. A surrogate pair is one code point of
  four bytes; a surrogate without its partner is replaced by U+FFFD (\<open>EF BF BD\<close>).
\<close>

fun Buffer_from :: "js_string \<Rightarrow> byte list" where
  "Buffer_from [] = []"
| "Buffer_from (u # us) =
     (if u < 0x80 then ucast u # Buffer_from us
      else if u < 0x800 then
        (0xC0 OR ucast (drop_bit 6 u)) # (0x80 OR (ucast u AND 0x3F)) # Buffer_from us
      else if 0xD800 \<le> u \<and> u \<le> 0xDBFF then
        (case us of
           [] \<Rightarrow> [0xEF, 0xBF, 0xBD]
         | v # vs \<Rightarrow>
             if 0xDC00 \<le> v \<and> v \<le> 0xDFFF then
               (let cp = 0x10000 + push_bit 10 (ucast (u AND 0x3FF)) + ucast (v AND 0x3FF) :: u32
                in (0xF0 OR ucast (drop_bit 18 cp))
                   # (0x80 OR (ucast (drop_bit 12 cp) AND 0x3F))
                   # (0x80 OR (ucast (drop_bit 6 cp) AND 0x3F))
                   # (0x80 OR (ucast cp AND 0x3F))
                   # Buffer_from vs)
             else 0xEF # 0xBF # 0xBD # Buffer_from us)
      else if 0xDC00 \<le> u \<and> u \<le> 0xDFFF then 0xEF # 0xBF # 0xBD # Buffer_from us
      else (0xE0 OR ucast (drop_bit 12 u))
           # (0x80 OR (ucast (drop_bit 6 u) AND 0x3F))
           # (0x80 OR (ucast u AND 0x3F))
           # Buffer_from us)"

text \<open>A string literal of the code, as code units (its characters are ASCII).\<close>

definition js :: "string \<Rightarrow> js_string" where
  "js s = map (\<lambda>c. of_nat (of_char c)) s"

text \<open>The parameter \<^verbatim>\<open>content: string | Buffer\<close>.\<close>

datatype content = ContentString js_string | ContentBuffer "byte list"

text \<open>
  The expression \<^verbatim>\<open>typeof content === 'string' ? Buffer.from(content) : content\<close>, which
  \<^verbatim>\<open>storeContent\<close> and \<^verbatim>\<open>generateContentHash\<close> both apply to their argument.
\<close>

definition toBuffer :: "content \<Rightarrow> byte list" where
  "toBuffer content =
     (case content of ContentString s \<Rightarrow> Buffer_from s | ContentBuffer b \<Rightarrow> b)"

section \<open>SHA-256 (\<^verbatim>\<open>crypto.createHash('sha256')\<close>) and its hex digest\<close>

definition rotr :: "nat \<Rightarrow> u32 \<Rightarrow> u32" where
  "rotr n x = drop_bit n x OR push_bit (32 - n) x"

definition Ch :: "u32 \<Rightarrow> u32 \<Rightarrow> u32 \<Rightarrow> u32" where
  "Ch x y z = (x AND y) XOR (NOT x AND z)"

definition Maj :: "u32 \<Rightarrow> u32 \<Rightarrow> u32 \<Rightarrow> u32" where
  "Maj x y z = (x AND y) XOR (x AND z) XOR (y AND z)"

definition Sigma0 :: "u32 \<Rightarrow> u32" where
  "Sigma0 x = rotr 2 x XOR rotr 13 x XOR rotr 22 x"

definition Sigma1 :: "u32 \<Rightarrow> u32" where
  "Sigma1 x = rotr 6 x XOR rotr 11 x XOR rotr 25 x"

definition sigma0 :: "u32 \<Rightarrow> u32" where
  "sigma0 x = rotr 7 x XOR rotr 18 x XOR drop_bit 3 x"

definition sigma1 :: "u32 \<Rightarrow> u32" where
  "sigma1 x = rotr 17 x XOR rotr 19 x XOR drop_bit 10 x"

definition K256 :: "u32 list" where
  "K256 = [
   0x428A2F98, 0x71374491, 0xB5C0FBCF, 0xE9B5DBA5, 0x3956C25B, 0x59F111F1, 0x923F82A4, 0xAB1C5ED5,
   0xD807AA98, 0x12835B01, 0x243185BE, 0x550C7DC3, 0x72BE5D74, 0x80DEB1FE, 0x9BDC06A7, 0xC19BF174,
   0xE49B69C1, 0xEFBE4786, 0x0FC19DC6, 0x240CA1CC, 0x2DE92C6F, 0x4A7484AA, 0x5CB0A9DC, 0x76F988DA,
   0x983E5152, 0xA831C66D, 0xB00327C8, 0xBF597FC7, 0xC6E00BF3, 0xD5A79147, 0x06CA6351, 0x14292967,
   0x27B70A85, 0x2E1B2138, 0x4D2C6DFC, 0x53380D13, 0x650A7354, 0x766A0ABB, 0x81C2C92E, 0x92722C85,
   0xA2BFE8A1, 0xA81A664B, 0xC24B8B70, 0xC76C51A3, 0xD192E819, 0xD6990624, 0xF40E3585, 0x106AA070,
   0x19A4C116, 0x1E376C08, 0x2748774C, 0x34B0BCB5, 0x391C0CB3, 0x4ED8AA4A, 0x5B9CCA4F, 0x682E6FF3,
   0x748F82EE, 0x78A5636F, 0x84C87814, 0x8CC70208, 0x90BEFFFA, 0xA4506CEB, 0xBEF9A3F7, 0xC67178F2]"

definition H256 :: "u32 list" where
  "H256 = [0x6A09E667, 0xBB67AE85, 0x3C6EF372, 0xA54FF53A,
           0x510E527F, 0x9B05688C, 0x1F83D9AB, 0x5BE0CD19]"

definition be_bytes32 :: "u32 \<Rightarrow> byte list" where
  "be_bytes32 w = [ucast (drop_bit 24 w), ucast (drop_bit 16 w), ucast (drop_bit 8 w), ucast w]"

definition be_bytes64 :: "64 word \<Rightarrow> byte list" where
  "be_bytes64 w = [ucast (drop_bit 56 w), ucast (drop_bit 48 w), ucast (drop_bit 40 w),
                   ucast (drop_bit 32 w), ucast (drop_bit 24 w), ucast (drop_bit 16 w),
                   ucast (drop_bit 8 w), ucast w]"

text \<open>
  Padding: the byte \<open>80\<close>, zero bytes up to 56 modulo 64, and the length of the message in
  bits as a 64-bit big-endian number.
\<close>

definition pad :: "byte list \<Rightarrow> byte list" where
  "pad m = m @ [0x80] @ replicate ((119 - length m mod 64) mod 64) 0
             @ be_bytes64 (of_nat (8 * length m))"

fun be_words :: "byte list \<Rightarrow> u32 list" where
  "be_words (a # b # c # d # rest) =
     (push_bit 24 (ucast a) OR push_bit 16 (ucast b) OR push_bit 8 (ucast c) OR ucast d)
       # be_words rest"
| "be_words _ = []"

fun blocks :: "nat \<Rightarrow> u32 list \<Rightarrow> u32 list list" where
  "blocks 0 ws = []"
| "blocks (Suc n) ws = take 16 ws # blocks n (drop 16 ws)"

fun schedule :: "nat \<Rightarrow> u32 list \<Rightarrow> u32 list" where
  "schedule 0 w = w"
| "schedule (Suc n) w =
     schedule n (w @ [sigma1 (w ! (length w - 2)) + w ! (length w - 7)
                      + sigma0 (w ! (length w - 15)) + w ! (length w - 16)])"

fun round :: "u32 list \<Rightarrow> u32 \<times> u32 \<Rightarrow> u32 list" where
  "round [a, b, c, d, e, f, g, h] (k, w) =
     (let t1 = h + Sigma1 e + Ch e f g + k + w;
          t2 = Sigma0 a + Maj a b c
      in [t1 + t2, a, b, c, d + t1, e, f, g])"
| "round s _ = s"

definition compress :: "u32 list \<Rightarrow> u32 list \<Rightarrow> u32 list" where
  "compress hs blk = map2 (+) hs (foldl round hs (zip K256 (schedule 48 blk)))"

definition sha256 :: "byte list \<Rightarrow> byte list" where
  "sha256 m =
     (let ws = be_words (pad m)
      in concat (map be_bytes32 (foldl compress H256 (blocks (length ws div 16) ws))))"

definition hex_digit :: "nat \<Rightarrow> char" where
  "hex_digit n = ''0123456789abcdef'' ! n"

definition hex :: "byte list \<Rightarrow> string" where
  "hex bs = concat (map (\<lambda>b. [hex_digit (unat b div 16), hex_digit (unat b mod 16)]) bs)"

section \<open>The storage backend\<close>

text \<open>
  What Google Cloud Storage holds: buckets by name, and in each bucket objects by path.
  An object is its bytes with the content type and the custom metadata given on upload.
\<close>

record gcs_object =
  object_data :: "byte list"
  object_contentType :: string
  object_metadata :: "(string \<times> string) list"

type_synonym cloud = "string \<rightharpoonup> (string \<rightharpoonup> gcs_object)"

text \<open>
  What a JavaScript caller can catch: \<open>Error msg\<close> is \<^verbatim>\<open>new Error(msg)\<close>, \<open>TypeError\<close> is
  raised by the runtime, and \<open>ApiError code msg\<close> is the rejection of a request by the
  storage client (an HTTP status and a message).
\<close>

datatype error = Error string | TypeError string | ApiError nat string

text \<open>
  Every awaited call of the storage client can be rejected (network, permissions, quota).
  Which calls are rejected, and with what, is decided outside the program: \<open>faults\<close> maps
  each call to the error it is rejected with, if any.
\<close>

datatype gcs_call =
    BucketExists string
  | BucketCreate string
  | FileSave string string
  | FileExists string string
  | FileDownload string string

type_synonym faults = "gcs_call \<Rightarrow> error option"

definition no_faults :: faults where
  "no_faults = (\<lambda>_. None)"

text \<open>\<^verbatim>\<open>bucket.exists()\<close>\<close>

definition bucket_exists :: "faults \<Rightarrow> string \<Rightarrow> cloud \<Rightarrow> error + bool" where
  "bucket_exists flt b st =
     (case flt (BucketExists b) of
        Some e \<Rightarrow> Inl e
      | None \<Rightarrow> Inr (st b \<noteq> None))"

text \<open>\<^verbatim>\<open>bucket.create()\<close>: a bucket that exists already is a conflict (409).\<close>

definition bucket_create :: "faults \<Rightarrow> string \<Rightarrow> cloud \<Rightarrow> (error + unit) \<times> cloud" where
  "bucket_create flt b st =
     (case flt (BucketCreate b) of
        Some e \<Rightarrow> (Inl e, st)
      | None \<Rightarrow>
          (case st b of
             Some _ \<Rightarrow> (Inl (ApiError 409 ''Conflict''), st)
           | None \<Rightarrow> (Inr (), st(b \<mapsto> Map.empty))))"

text \<open>
  \<^verbatim>\<open>file.save(data, options)\<close>: the upload of a whole buffer. The object appears, or
  replaces the one at the same path, only when the upload completes; a rejected upload
  leaves the bucket as it was. Without the bucket the upload is rejected (404).
\<close>

definition file_save ::
  "faults \<Rightarrow> string \<Rightarrow> string \<Rightarrow> gcs_object \<Rightarrow> cloud \<Rightarrow> (error + unit) \<times> cloud" where
  "file_save flt b p obj st =
     (case flt (FileSave b p) of
        Some e \<Rightarrow> (Inl e, st)
      | None \<Rightarrow>
          (case st b of
             None \<Rightarrow> (Inl (ApiError 404 ''Not Found''), st)
           | Some objs \<Rightarrow> (Inr (), st(b \<mapsto> objs(p \<mapsto> obj)))))"

text \<open>The object at a path of a bucket, if there is one.\<close>

definition object_at :: "cloud \<Rightarrow> string \<Rightarrow> string \<Rightarrow> gcs_object option" where
  "object_at st b p = (case st b of None \<Rightarrow> None | Some objs \<Rightarrow> objs p)"

text \<open>\<^verbatim>\<open>file.exists()\<close>: false for a missing object and for a missing bucket.\<close>

definition file_exists :: "faults \<Rightarrow> string \<Rightarrow> string \<Rightarrow> cloud \<Rightarrow> error + bool" where
  "file_exists flt b p st =
     (case flt (FileExists b p) of
        Some e \<Rightarrow> Inl e
      | None \<Rightarrow> Inr (object_at st b p \<noteq> None))"

text \<open>\<^verbatim>\<open>file.download()\<close>: the bytes of the object; a missing object is rejected (404).\<close>

definition file_download :: "faults \<Rightarrow> string \<Rightarrow> string \<Rightarrow> cloud \<Rightarrow> error + byte list" where
  "file_download flt b p st =
     (case flt (FileDownload b p) of
        Some e \<Rightarrow> Inl e
      | None \<Rightarrow>
          (case object_at st b p of
             None \<Rightarrow> Inl (ApiError 404 ''No such object'')
           | Some obj \<Rightarrow> Inr (object_data obj)))"

section \<open>The storage manager\<close>

text \<open>The interface \<^verbatim>\<open>StorageInfo\<close> of \<^verbatim>\<open>types.ts\<close>; \<open>size_bytes\<close> is its field \<^verbatim>\<open>size\<close>.\<close>

record StorageInfo =
  bucket :: string
  path :: string
  filename :: string
  contentHash :: string
  contentType :: string
  size_bytes :: nat

text \<open>
  \<^verbatim>\<open>DEFAULT_BUCKET_NAME\<close>, from the environment variable \<^verbatim>\<open>GOOGLE_CLOUD_PROJECT\<close> (unset, or
  set to a string; the empty string is falsy).
\<close>

definition DEFAULT_BUCKET_NAME :: "string option \<Rightarrow> string" where
  "DEFAULT_BUCKET_NAME project =
     (case project of
        None \<Rightarrow> ''agentic-readme-cas''
      | Some p \<Rightarrow> if p \<noteq> [] then p @ ''-cas'' else ''agentic-readme-cas'')"

definition generateContentHash :: "content \<Rightarrow> string" where
  "generateContentHash content = hex (sha256 (toBuffer content))"

text \<open>
  \<^verbatim>\<open>storeContent(content, extension, contentType, bucketName = DEFAULT_BUCKET_NAME)\<close>.
  The first two arguments of the model are the environment: the project variable and the
  rejections of the backend. An error of an awaited call leaves the function at once.
  The parameter \<^verbatim>\<open>contentType\<close> is \<open>ctype\<close> and the locals \<^verbatim>\<open>contentHash\<close>, \<^verbatim>\<open>filename\<close> and
  \<^verbatim>\<open>path\<close> are \<open>hash\<close>, \<open>fname\<close> and \<open>pth\<close>, since the fields of \<open>StorageInfo\<close> have
  these names; \<open>bucketArg\<close> is the optional argument \<^verbatim>\<open>bucketName\<close> as the caller gave it.
\<close>

definition storeContent ::
  "string option \<Rightarrow> faults \<Rightarrow> content \<Rightarrow> string \<Rightarrow> string \<Rightarrow> string option \<Rightarrow> cloud
     \<Rightarrow> (error + StorageInfo) \<times> cloud" where
  "storeContent project flt content extension ctype bucketArg st =
     (let bucketName = (case bucketArg of None \<Rightarrow> DEFAULT_BUCKET_NAME project | Some b \<Rightarrow> b);
          contentBuffer = toBuffer content;
          hash = generateContentHash (ContentBuffer contentBuffer);
          fname = hash @ ''.'' @ extension;
          pth = ''cas'';
          fullPath = pth @ ''/'' @ fname
      in case bucket_exists flt bucketName st of
           Inl e \<Rightarrow> (Inl e, st)
         | Inr exists \<Rightarrow>
             (case (if \<not> exists then bucket_create flt bucketName st else (Inr (), st)) of
                (Inl e, st1) \<Rightarrow> (Inl e, st1)
              | (Inr _, st1) \<Rightarrow>
                  (case file_save flt bucketName fullPath
                          \<lparr>object_data = contentBuffer,
                           object_contentType = ctype,
                           object_metadata = [(''contentHash'', hash),
                                              (''originalExtension'', extension)]\<rparr> st1 of
                     (Inl e, st2) \<Rightarrow> (Inl e, st2)
                   | (Inr _, st2) \<Rightarrow>
                       (Inr \<lparr>bucket = bucketName,
                             path = pth,
                             filename = fname,
                             contentHash = hash,
                             contentType = ctype,
                             size_bytes = length contentBuffer\<rparr>, st2))))"

text \<open>\<^verbatim>\<open>retrieveContent(storageInfo)\<close>; it reads the backend and does not change it.\<close>

definition retrieveContent :: "faults \<Rightarrow> StorageInfo \<Rightarrow> cloud \<Rightarrow> error + byte list" where
  "retrieveContent flt storageInfo st =
     (let bucketName = bucket storageInfo;
          fullPath = path storageInfo @ ''/'' @ filename storageInfo
      in case file_exists flt bucketName fullPath st of
           Inl e \<Rightarrow> Inl e
         | Inr exists \<Rightarrow>
             if \<not> exists then Inl (Error (''File not found: '' @ fullPath))
             else file_download flt bucketName fullPath st)"

text \<open>
  The wrappers. \<^verbatim>\<open>storeAnalysisResults\<close> serialises its argument with
  \<^verbatim>\<open>JSON.stringify(results, null, 2)\<close>; the serialiser is the parameter \<open>stringify\<close>. It
  returns a string, or the call ends in an error before the backend is touched:
  \<^verbatim>\<open>JSON.stringify\<close> throws on a cyclic value, and for a value without JSON text it returns
  \<^verbatim>\<open>undefined\<close>, on which the digest throws a \<open>TypeError\<close>.
\<close>

definition storeReadme ::
  "string option \<Rightarrow> faults \<Rightarrow> js_string \<Rightarrow> js_string \<Rightarrow> js_string \<Rightarrow> cloud
     \<Rightarrow> (error + StorageInfo) \<times> cloud" where
  "storeReadme project flt readme packageName packageVersion st =
     storeContent project flt (ContentString readme) ''md'' ''text/markdown''
       (Some (DEFAULT_BUCKET_NAME project)) st"

definition storeAnalysisResults ::
  "('r \<Rightarrow> error + js_string) \<Rightarrow> string option \<Rightarrow> faults \<Rightarrow> 'r \<Rightarrow> js_string \<Rightarrow> js_string
     \<Rightarrow> cloud \<Rightarrow> (error + StorageInfo) \<times> cloud" where
  "storeAnalysisResults stringify project flt results packageName packageVersion st =
     (case stringify results of
        Inl e \<Rightarrow> (Inl e, st)
      | Inr s \<Rightarrow>
          storeContent project flt (ContentString s) ''json'' ''application/json''
            (Some (DEFAULT_BUCKET_NAME project)) st)"

definition storeLogOutput ::
  "string option \<Rightarrow> faults \<Rightarrow> js_string \<Rightarrow> js_string \<Rightarrow> js_string \<Rightarrow> cloud
     \<Rightarrow> (error + StorageInfo) \<times> cloud" where
  "storeLogOutput project flt log packageName packageVersion st =
     storeContent project flt (ContentString log) ''log'' ''text/plain''
       (Some (DEFAULT_BUCKET_NAME project)) st"

section \<open>Notions used to state the properties\<close>

text \<open>The location of a reference inside its bucket: \<^verbatim>\<open>`${path}/${filename}`\<close>.\<close>

definition fullPath_of :: "StorageInfo \<Rightarrow> string" where
  "fullPath_of r = path r @ ''/'' @ filename r"

text \<open>The bucket a call of \<^verbatim>\<open>storeContent\<close> works on, after the default of its last parameter.\<close>

definition bucket_of :: "string option \<Rightarrow> string option \<Rightarrow> string" where
  "bucket_of project bucketArg =
     (case bucketArg of None \<Rightarrow> DEFAULT_BUCKET_NAME project | Some b \<Rightarrow> b)"

text \<open>The reference and the stored object that a payload, an extension and a content type determine.\<close>

definition reference_of :: "string \<Rightarrow> content \<Rightarrow> string \<Rightarrow> string \<Rightarrow> StorageInfo" where
  "reference_of b content extension ctype =
     \<lparr>bucket = b,
      path = ''cas'',
      filename = hex (sha256 (toBuffer content)) @ ''.'' @ extension,
      contentHash = hex (sha256 (toBuffer content)),
      contentType = ctype,
      size_bytes = length (toBuffer content)\<rparr>"

definition stored_object :: "content \<Rightarrow> string \<Rightarrow> string \<Rightarrow> gcs_object" where
  "stored_object content extension ctype =
     \<lparr>object_data = toBuffer content,
      object_contentType = ctype,
      object_metadata = [(''contentHash'', hex (sha256 (toBuffer content))),
                         (''originalExtension'', extension)]\<rparr>"

text \<open>Backends in which one kind of call is rejected with a given error, and no other.\<close>

definition reject_bucket_exists :: "error \<Rightarrow> faults" where
  "reject_bucket_exists e c = (case c of BucketExists _ \<Rightarrow> Some e | _ \<Rightarrow> None)"

definition reject_bucket_create :: "error \<Rightarrow> faults" where
  "reject_bucket_create e c = (case c of BucketCreate _ \<Rightarrow> Some e | _ \<Rightarrow> None)"

definition reject_file_save :: "error \<Rightarrow> faults" where
  "reject_file_save e c = (case c of FileSave _ _ \<Rightarrow> Some e | _ \<Rightarrow> None)"

text \<open>The payload \<^verbatim>\<open>"# Hello\n"\<close> of the scenario, and a reference that was never written.\<close>

definition hello :: js_string where
  "hello = js ''# Hello'' @ [0x0A]"

definition never_written :: StorageInfo where
  "never_written =
     \<lparr>bucket = ''agentic-readme-cas'', path = ''cas'', filename = ''0000.md'',
      contentHash = ''0000'', contentType = ''text/markdown'', size_bytes = 0\<rparr>"

section \<open>The two operations in closed form\<close>

lemma storeContent_closed:
  "storeContent project flt content extension ctype bucketArg st =
     (let b = bucket_of project bucketArg;
          r = reference_of b content extension ctype;
          p = fullPath_of r;
          obj = stored_object content extension ctype
      in case flt (BucketExists b) of
           Some e \<Rightarrow> (Inl e, st)
         | None \<Rightarrow>
             (case st b of
                None \<Rightarrow>
                  (case flt (BucketCreate b) of
                     Some e \<Rightarrow> (Inl e, st)
                   | None \<Rightarrow>
                       (case flt (FileSave b p) of
                          Some e \<Rightarrow> (Inl e, st(b \<mapsto> Map.empty))
                        | None \<Rightarrow> (Inr r, st(b \<mapsto> [p \<mapsto> obj]))))
              | Some objs \<Rightarrow>
                  (case flt (FileSave b p) of
                     Some e \<Rightarrow> (Inl e, st)
                   | None \<Rightarrow> (Inr r, st(b \<mapsto> objs(p \<mapsto> obj))))))"
  by (simp add: storeContent_def Let_def bucket_of_def reference_of_def fullPath_of_def
      stored_object_def generateContentHash_def toBuffer_def bucket_exists_def
      bucket_create_def file_save_def split: option.splits)

lemma retrieveContent_closed:
  "retrieveContent flt r st =
     (case flt (FileExists (bucket r) (fullPath_of r)) of
        Some e \<Rightarrow> Inl e
      | None \<Rightarrow>
          (case object_at st (bucket r) (fullPath_of r) of
             None \<Rightarrow> Inl (Error (''File not found: '' @ fullPath_of r))
           | Some obj \<Rightarrow>
               (case flt (FileDownload (bucket r) (fullPath_of r)) of
                  Some e \<Rightarrow> Inl e
                | None \<Rightarrow> Inr (object_data obj))))"
  by (simp add: retrieveContent_def Let_def fullPath_of_def file_exists_def file_download_def
      split: option.splits)

text \<open>A put that returns a reference: the reference, the object it left, the calls it made.\<close>

lemma storeContent_Inr:
  assumes "storeContent project flt content extension ctype bucketArg st = (Inr ref, st')"
  shows "ref = reference_of (bucket_of project bucketArg) content extension ctype"
    and "object_at st' (bucket ref) (fullPath_of ref) = Some (stored_object content extension ctype)"
    and "flt (BucketExists (bucket ref)) = None"
    and "flt (FileSave (bucket ref) (fullPath_of ref)) = None"
    and "st' (bucket ref) \<noteq> None"
  using assms
  by (auto simp: storeContent_closed Let_def object_at_def reference_of_def
      split: option.splits)

text \<open>A put touches one location at most.\<close>

lemma storeContent_elsewhere:
  assumes "storeContent project flt content extension ctype bucketArg st = (res, st')"
      and "b \<noteq> bucket_of project bucketArg
           \<or> p \<noteq> fullPath_of (reference_of (bucket_of project bucketArg) content extension ctype)"
  shows "object_at st' b p = object_at st b p"
  using assms
  by (auto simp: storeContent_closed Let_def object_at_def split: option.splits if_splits)



lemma reference_of_simps:
  "bucket (reference_of b content extension ctype) = b"
  "path (reference_of b content extension ctype) = ''cas''"
  "filename (reference_of b content extension ctype)
     = hex (sha256 (toBuffer content)) @ ''.'' @ extension"
  "contentHash (reference_of b content extension ctype) = hex (sha256 (toBuffer content))"
  "contentType (reference_of b content extension ctype) = ctype"
  "size_bytes (reference_of b content extension ctype) = length (toBuffer content)"
  "fullPath_of (reference_of b content extension ctype)
     = ''cas/'' @ hex (sha256 (toBuffer content)) @ ''.'' @ extension"
  by (simp_all add: reference_of_def fullPath_of_def)

lemma toBuffer_hello: "toBuffer (ContentString hello) = [0x23, 0x20, 0x48, 0x65, 0x6C, 0x6C, 0x6F, 0x0A]"
  by (simp add: toBuffer_def hello_def js_def)

lemma storeContent_no_faults:
  "\<exists>ref st'. storeContent project no_faults content extension ctype bucketArg st = (Inr ref, st')"
  by (simp add: storeContent_closed Let_def no_faults_def split: option.splits)


section \<open>Test vectors\<close>

text \<open>
  The digests that Node prints for the empty buffer, for \<^verbatim>\<open>"abc"\<close> (the example of
  FIPS 180-4) and for \<^verbatim>\<open>"# Hello\n"\<close>.
\<close>

lemma sha256_empty:
  "hex (sha256 []) = ''e3b0c44298fc1c149afbf4c8996fb92427ae41e4649b934ca495991b7852b855''"
  by code_simp

lemma sha256_abc:
  "hex (sha256 [0x61, 0x62, 0x63])
     = ''ba7816bf8f01cfea414140de5dae2223b00361a396177a9cb410ff61f20015ad''"
  by code_simp

lemma sha256_hello:
  "hex (sha256 [0x23, 0x20, 0x48, 0x65, 0x6C, 0x6C, 0x6F, 0x0A])
     = ''90f8ec5669cd34183b9b0fdf8b94f5efb4c3672876330f4aa76088c2b4ad17be''"
  by code_simp

text \<open>Non-ASCII strings: two and three bytes, a surrogate pair, a lone surrogate.\<close>

lemma Buffer_from_examples:
  "Buffer_from [0xE9] = [0xC3, 0xA9]"
  "Buffer_from [0x20AC] = [0xE2, 0x82, 0xAC]"
  "Buffer_from [0xD83D, 0xDE00] = [0xF0, 0x9F, 0x98, 0x80]"
  "Buffer_from [0xD800, 0x41] = [0xEF, 0xBF, 0xBD, 0x41]"
  by simp_all

text \<open>The scenario: \<^verbatim>\<open>storeContent("# Hello\n", "md", "text/markdown")\<close> on an empty backend.\<close>

lemma put_hello:
  "storeContent None no_faults (ContentString hello) ''md'' ''text/markdown'' None Map.empty
     = (Inr (reference_of ''agentic-readme-cas'' (ContentString hello) ''md'' ''text/markdown''),
        [''agentic-readme-cas'' \<mapsto>
           [fullPath_of (reference_of ''agentic-readme-cas'' (ContentString hello)
                           ''md'' ''text/markdown'')
              \<mapsto> stored_object (ContentString hello) ''md'' ''text/markdown'']])"
  by (simp add: storeContent_closed Let_def no_faults_def bucket_of_def DEFAULT_BUCKET_NAME_def)


text \<open>
  The empty payload: its reference carries the digest of the empty byte sequence and the
  size 0, and a get returns no bytes.
\<close>

lemma empty_payload:
  assumes put: "storeContent project flt content extension ctype bucketArg st = (Inr ref, st')"
      and empty: "toBuffer content = []"
      and exists_answered: "flt' (FileExists (bucket ref) (fullPath_of ref)) = None"
      and download_answered: "flt' (FileDownload (bucket ref) (fullPath_of ref)) = None"
  shows "contentHash ref = ''e3b0c44298fc1c149afbf4c8996fb92427ae41e4649b934ca495991b7852b855''"
    and "size_bytes ref = 0"
    and "retrieveContent flt' ref st' = Inr []"
proof -
  have ref: "ref = reference_of (bucket_of project bucketArg) content extension ctype"
    using put by (rule storeContent_Inr(1))
  show "contentHash ref = ''e3b0c44298fc1c149afbf4c8996fb92427ae41e4649b934ca495991b7852b855''"
    by (simp add: ref reference_of_simps empty sha256_empty)
  show "size_bytes ref = 0"
    by (simp add: ref reference_of_simps empty)
  have "object_at st' (bucket ref) (fullPath_of ref)
          = Some (stored_object content extension ctype)"
    using put by (rule storeContent_Inr(2))
  then show "retrieveContent flt' ref st' = Inr []"
    using exists_answered download_answered
    by (simp add: retrieveContent_closed stored_object_def empty)
qed

lemma empty_payload_stored:
  "\<exists>ref st'.
     storeContent None no_faults (ContentString []) ''txt'' ''text/plain'' None Map.empty
       = (Inr ref, st')
     \<and> contentHash ref = ''e3b0c44298fc1c149afbf4c8996fb92427ae41e4649b934ca495991b7852b855''
     \<and> size_bytes ref = 0
     \<and> retrieveContent no_faults ref st' = Inr []"
proof -
  obtain ref st' where put:
    "storeContent None no_faults (ContentString []) ''txt'' ''text/plain'' None Map.empty
       = (Inr ref, st')"
    using storeContent_no_faults by blast
  have empty: "toBuffer (ContentString []) = []"
    by (simp add: toBuffer_def)
  have ex: "no_faults (FileExists (bucket ref) (fullPath_of ref)) = None"
   and dl: "no_faults (FileDownload (bucket ref) (fullPath_of ref)) = None"
    by (simp_all add: no_faults_def)
  show ?thesis
    using put empty_payload [OF put empty ex dl] by blast
qed

section \<open>Properties of the store\<close>

text \<open>
  In what follows a put is a call of \<^verbatim>\<open>storeContent\<close>, a get a call of
  \<^verbatim>\<open>retrieveContent\<close>, and the bytes of a payload are \<open>toBuffer content\<close>: the buffer
  itself, or the UTF-8 encoding of the string. A call of the backend is answered when the
  backend does not reject it.
\<close>





text \<open>
  C3 (dedup idempotence). After a put has returned a reference, a second put of the same
  payload with the same content type, extension and bucket, whose calls the backend
  answers, returns the same reference (so the same file name, content hash and size) and
  leaves the backend exactly as the first put left it: it does not fail on the object
  that is already there, and it stores no second object.
\<close>

theorem C3_dedup_idempotence:
  assumes first: "storeContent project flt1 content extension ctype bucketArg st = (Inr ref1, st1)"
      and exists_answered: "flt2 (BucketExists (bucket ref1)) = None"
      and save_accepted: "flt2 (FileSave (bucket ref1) (fullPath_of ref1)) = None"
  shows "storeContent project flt2 content extension ctype bucketArg st1 = (Inr ref1, st1)"
proof -
  let ?b = "bucket_of project bucketArg"
  let ?r = "reference_of ?b content extension ctype"
  let ?obj = "stored_object content extension ctype"
  have ref1: "ref1 = ?r"
    using first by (rule storeContent_Inr(1))
  have b: "bucket ?r = ?b"
    by (simp add: reference_of_simps)
  have there: "object_at st1 ?b (fullPath_of ?r) = Some ?obj"
    using storeContent_Inr(2) [OF first] ref1 b by simp
  then obtain objs where objs: "st1 ?b = Some objs" "objs (fullPath_of ?r) = Some ?obj"
    by (auto simp: object_at_def split: option.splits)
  have "objs(fullPath_of ?r \<mapsto> ?obj) = objs"
    using objs(2) by (rule map_upd_triv)
  then have "st1(?b \<mapsto> objs(fullPath_of ?r \<mapsto> ?obj)) = st1"
    using objs(1) by (simp add: map_upd_triv)
  then show ?thesis
    using exists_answered save_accepted objs(1) ref1 b
    by (simp add: storeContent_closed Let_def)
qed

theorem C3_dedup_idempotence_witness:
  "\<exists>ref1 st1.
     storeContent None no_faults (ContentString hello) ''md'' ''text/markdown'' None Map.empty
       = (Inr ref1, st1)
     \<and> no_faults (BucketExists (bucket ref1)) = None
     \<and> no_faults (FileSave (bucket ref1) (fullPath_of ref1)) = None
     \<and> storeContent None no_faults (ContentString hello) ''md'' ''text/markdown'' None st1
       = (Inr ref1, st1)"
proof -
  let ?ref = "reference_of ''agentic-readme-cas'' (ContentString hello) ''md'' ''text/markdown''"
  have ex: "no_faults (BucketExists (bucket ?ref)) = None"
   and sv: "no_faults (FileSave (bucket ?ref) (fullPath_of ?ref)) = None"
    by (simp_all add: no_faults_def)
  show ?thesis
    using C3_dedup_idempotence [OF put_hello ex sv] put_hello ex sv by blast
qed

text \<open>
  C4 (extension sensitivity). Two puts of the same payload with the same content type
  and bucket, one with the extension \<^verbatim>\<open>md\<close> and one with \<^verbatim>\<open>json\<close>, return references with
  the same content hash and different file names. They write two different locations of
  the same bucket: each put leaves its object at its own location and does not touch the
  location of the other.
\<close>

theorem C4_extension_sensitivity:
  assumes md: "storeContent project flt1 content ''md'' ctype bucketArg sta = (Inr ref_md, sta')"
      and json: "storeContent project flt2 content ''json'' ctype bucketArg stb = (Inr ref_json, stb')"
  shows "contentHash ref_md = contentHash ref_json
       \<and> filename ref_md \<noteq> filename ref_json
       \<and> bucket ref_md = bucket ref_json
       \<and> fullPath_of ref_md \<noteq> fullPath_of ref_json
       \<and> object_at sta' (bucket ref_md) (fullPath_of ref_md)
           = Some (stored_object content ''md'' ctype)
       \<and> object_at stb' (bucket ref_json) (fullPath_of ref_json)
           = Some (stored_object content ''json'' ctype)
       \<and> object_at sta' (bucket ref_json) (fullPath_of ref_json)
           = object_at sta (bucket ref_json) (fullPath_of ref_json)
       \<and> object_at stb' (bucket ref_md) (fullPath_of ref_md)
           = object_at stb (bucket ref_md) (fullPath_of ref_md)"
proof -
  let ?b = "bucket_of project bucketArg"
  have r_md: "ref_md = reference_of ?b content ''md'' ctype"
    using md by (rule storeContent_Inr(1))
  have r_json: "ref_json = reference_of ?b content ''json'' ctype"
    using json by (rule storeContent_Inr(1))
  have distinct: "fullPath_of ref_md \<noteq> fullPath_of ref_json"
    by (simp add: r_md r_json reference_of_simps)
  have "object_at sta' (bucket ref_json) (fullPath_of ref_json)
          = object_at sta (bucket ref_json) (fullPath_of ref_json)"
    using distinct by (intro storeContent_elsewhere [OF md]) (simp add: r_md [symmetric])
  moreover have "object_at stb' (bucket ref_md) (fullPath_of ref_md)
          = object_at stb (bucket ref_md) (fullPath_of ref_md)"
    using distinct by (intro storeContent_elsewhere [OF json]) (simp add: r_json [symmetric])
  moreover have "contentHash ref_md = contentHash ref_json"
    "filename ref_md \<noteq> filename ref_json" "bucket ref_md = bucket ref_json"
    by (simp_all add: r_md r_json reference_of_simps)
  ultimately show ?thesis
    using distinct storeContent_Inr(2) [OF md] storeContent_Inr(2) [OF json] by simp
qed

theorem C4_extension_sensitivity_witness:
  "\<exists>ref_md st1 ref_json st2.
     storeContent None no_faults (ContentString hello) ''md'' ''text/markdown'' None Map.empty
       = (Inr ref_md, st1)
     \<and> storeContent None no_faults (ContentString hello) ''json'' ''text/markdown'' None st1
       = (Inr ref_json, st2)
     \<and> contentHash ref_md = contentHash ref_json
     \<and> filename ref_md \<noteq> filename ref_json
     \<and> fullPath_of ref_md \<noteq> fullPath_of ref_json
     \<and> object_at st2 (bucket ref_md) (fullPath_of ref_md)
         = Some (stored_object (ContentString hello) ''md'' ''text/markdown'')
     \<and> object_at st2 (bucket ref_json) (fullPath_of ref_json)
         = Some (stored_object (ContentString hello) ''json'' ''text/markdown'')"
proof -
  let ?ref = "reference_of ''agentic-readme-cas'' (ContentString hello) ''md'' ''text/markdown''"
  let ?st1 = "[''agentic-readme-cas'' \<mapsto>
                [fullPath_of ?ref \<mapsto> stored_object (ContentString hello) ''md'' ''text/markdown'']]"
  obtain ref_json st2 where json:
    "storeContent None no_faults (ContentString hello) ''json'' ''text/markdown'' None ?st1
       = (Inr ref_json, st2)"
    using storeContent_no_faults by blast
  note facts = C4_extension_sensitivity [OF put_hello json]
  have md_there: "object_at ?st1 (bucket ?ref) (fullPath_of ?ref)
           = Some (stored_object (ContentString hello) ''md'' ''text/markdown'')"
    using facts by blast
  have md_kept: "object_at st2 (bucket ?ref) (fullPath_of ?ref)
           = object_at ?st1 (bucket ?ref) (fullPath_of ?ref)"
    using facts by blast
  have "object_at st2 (bucket ?ref) (fullPath_of ?ref)
           = Some (stored_object (ContentString hello) ''md'' ''text/markdown'')"
    using md_kept md_there by (rule trans)
  moreover have "contentHash ?ref = contentHash ref_json"
    and "filename ?ref \<noteq> filename ref_json"
    and "fullPath_of ?ref \<noteq> fullPath_of ref_json"
    and "object_at st2 (bucket ref_json) (fullPath_of ref_json)
           = Some (stored_object (ContentString hello) ''json'' ''text/markdown'')"
    using facts by blast+
  ultimately show ?thesis
    using put_hello json by blast
qed

text \<open>
  C5 (digest and put agree). \<^verbatim>\<open>generateContentHash\<close> of a payload is the content hash of
  the reference that a put of this payload returns, whether the digest is taken of the
  payload as given or of its bytes: \<^verbatim>\<open>storeContent\<close> calls \<^verbatim>\<open>generateContentHash\<close> itself.
  The function has no effect and reads no state: it is a function of its argument alone.
\<close>

theorem C5_digest_agrees_with_put:
  assumes "storeContent project flt content extension ctype bucketArg st = (Inr ref, st')"
  shows "generateContentHash content = contentHash ref
       \<and> generateContentHash (ContentBuffer (toBuffer content)) = contentHash ref"
  using storeContent_Inr(1) [OF assms]
  by (simp add: generateContentHash_def reference_of_simps toBuffer_def)

theorem C5_digest_agrees_with_put_witness:
  "\<exists>ref st'.
     storeContent None no_faults (ContentString hello) ''md'' ''text/markdown'' None Map.empty
       = (Inr ref, st')
     \<and> generateContentHash (ContentString hello) = contentHash ref
     \<and> contentHash ref = ''90f8ec5669cd34183b9b0fdf8b94f5efb4c3672876330f4aa76088c2b4ad17be''"
proof -
  let ?ref = "reference_of ''agentic-readme-cas'' (ContentString hello) ''md'' ''text/markdown''"
  have "contentHash ?ref = ''90f8ec5669cd34183b9b0fdf8b94f5efb4c3672876330f4aa76088c2b4ad17be''"
    by (simp add: reference_of_simps toBuffer_hello sha256_hello)
  then show ?thesis
    using C5_digest_agrees_with_put [OF put_hello] put_hello by blast
qed

text \<open>
  C6 (missing object). For a reference whose location (bucket, path/file name) holds no
  object, a get whose existence check the backend answers fails with the error
  \<^verbatim>\<open>File not found: <location>\<close>; it returns no bytes and no other error. With the
  download answered as well, a get returns bytes exactly when an object is at the
  location.
\<close>

theorem C6_missing_object:
  assumes exists_answered: "flt (FileExists (bucket r) (fullPath_of r)) = None"
      and download_answered: "flt (FileDownload (bucket r) (fullPath_of r)) = None"
  shows "(object_at st (bucket r) (fullPath_of r) = None
            \<longrightarrow> retrieveContent flt r st = Inl (Error (''File not found: '' @ fullPath_of r)))
       \<and> ((\<exists>bytes. retrieveContent flt r st = Inr bytes)
            \<longleftrightarrow> object_at st (bucket r) (fullPath_of r) \<noteq> None)"
  using assms by (auto simp: retrieveContent_closed split: option.splits)

theorem C6_missing_object_witness:
  "no_faults (FileExists (bucket never_written) (fullPath_of never_written)) = None
   \<and> no_faults (FileDownload (bucket never_written) (fullPath_of never_written)) = None
   \<and> object_at Map.empty (bucket never_written) (fullPath_of never_written) = None
   \<and> retrieveContent no_faults never_written Map.empty
       = Inl (Error ''File not found: cas/0000.md'')"
proof -
  have ex: "no_faults (FileExists (bucket never_written) (fullPath_of never_written)) = None"
   and dl: "no_faults (FileDownload (bucket never_written) (fullPath_of never_written)) = None"
    by (simp_all add: no_faults_def)
  have absent: "object_at Map.empty (bucket never_written) (fullPath_of never_written) = None"
    by (simp add: object_at_def)
  have "fullPath_of never_written = ''cas/0000.md''"
    by (simp add: fullPath_of_def never_written_def)
  then show ?thesis
    using C6_missing_object [OF ex dl, of Map.empty] ex dl absent by simp
qed



text \<open>
  C8 (errors of a put). \<^verbatim>\<open>storeContent\<close> catches nothing and classifies nothing: the
  same rejection (503, Service Unavailable) of the existence check of the bucket, of the
  creation of the bucket and of the upload makes the put fail with the same error, so a
  caller cannot tell a backend that is unavailable from a write that failed.
\<close>

theorem C8_no_distinct_error_kinds:
  "fst (storeContent None (reject_bucket_exists (ApiError 503 ''Service Unavailable''))
          (ContentString hello) ''md'' ''text/markdown'' None Map.empty)
     = Inl (ApiError 503 ''Service Unavailable'')
   \<and> fst (storeContent None (reject_bucket_create (ApiError 503 ''Service Unavailable''))
          (ContentString hello) ''md'' ''text/markdown'' None Map.empty)
     = Inl (ApiError 503 ''Service Unavailable'')
   \<and> fst (storeContent None (reject_file_save (ApiError 503 ''Service Unavailable''))
          (ContentString hello) ''md'' ''text/markdown'' None Map.empty)
     = Inl (ApiError 503 ''Service Unavailable'')"
  by (simp add: storeContent_closed Let_def reject_bucket_exists_def reject_bucket_create_def
      reject_file_save_def bucket_of_def DEFAULT_BUCKET_NAME_def)

text \<open>
  C8, as the code has it. A put fails with the error \<open>e\<close> exactly when \<open>e\<close> is the
  rejection of the first of its backend calls to be rejected: the existence check of the
  bucket, the creation of the bucket when it is missing, the upload. The error is the
  backend's own, passed on unchanged. Whether an object is already at the location plays
  no part: when the calls are answered the put returns its reference.
\<close>

theorem C8_put_fails_with_backend_rejection:
  "(fst (storeContent project flt content extension ctype bucketArg st) = Inl e
     \<longleftrightarrow> flt (BucketExists (bucket_of project bucketArg)) = Some e
         \<or> (flt (BucketExists (bucket_of project bucketArg)) = None
             \<and> st (bucket_of project bucketArg) = None
             \<and> flt (BucketCreate (bucket_of project bucketArg)) = Some e)
         \<or> (flt (BucketExists (bucket_of project bucketArg)) = None
             \<and> (st (bucket_of project bucketArg) = None
                  \<longrightarrow> flt (BucketCreate (bucket_of project bucketArg)) = None)
             \<and> flt (FileSave (bucket_of project bucketArg)
                      (fullPath_of (reference_of (bucket_of project bucketArg)
                                      content extension ctype))) = Some e))
   \<and> (flt (BucketExists (bucket_of project bucketArg)) = None
       \<and> flt (BucketCreate (bucket_of project bucketArg)) = None
       \<and> flt (FileSave (bucket_of project bucketArg)
                (fullPath_of (reference_of (bucket_of project bucketArg)
                                content extension ctype))) = None
       \<longrightarrow> fst (storeContent project flt content extension ctype bucketArg st)
             = Inr (reference_of (bucket_of project bucketArg) content extension ctype))"
  by (auto simp: storeContent_closed Let_def split: option.splits)

theorem C8_put_fails_with_backend_rejection_witness:
  "object_at
     [''agentic-readme-cas'' \<mapsto>
        [fullPath_of (reference_of ''agentic-readme-cas'' (ContentString hello)
                        ''md'' ''text/markdown'')
           \<mapsto> stored_object (ContentString hello) ''md'' ''text/markdown'']]
     ''agentic-readme-cas''
     (fullPath_of (reference_of ''agentic-readme-cas'' (ContentString hello)
                     ''md'' ''text/markdown''))
     = Some (stored_object (ContentString hello) ''md'' ''text/markdown'')
   \<and> fst (storeContent None no_faults (ContentString hello) ''md'' ''text/markdown'' None
            [''agentic-readme-cas'' \<mapsto>
               [fullPath_of (reference_of ''agentic-readme-cas'' (ContentString hello)
                               ''md'' ''text/markdown'')
                  \<mapsto> stored_object (ContentString hello) ''md'' ''text/markdown'']])
     = Inr (reference_of ''agentic-readme-cas'' (ContentString hello) ''md'' ''text/markdown'')
   \<and> fst (storeContent None (reject_file_save (ApiError 403 ''Forbidden''))
            (ContentString hello) ''md'' ''text/markdown'' None Map.empty)
     = Inl (ApiError 403 ''Forbidden'')"
proof -
  let ?ref = "reference_of ''agentic-readme-cas'' (ContentString hello) ''md'' ''text/markdown''"
  let ?st1 = "[''agentic-readme-cas'' \<mapsto>
                [fullPath_of ?ref \<mapsto> stored_object (ContentString hello) ''md'' ''text/markdown'']]"
  have b: "bucket_of None None = ''agentic-readme-cas''"
    by (simp add: bucket_of_def DEFAULT_BUCKET_NAME_def)
  have occupied: "object_at ?st1 ''agentic-readme-cas'' (fullPath_of ?ref)
                    = Some (stored_object (ContentString hello) ''md'' ''text/markdown'')"
    by (simp add: object_at_def)
  have "fst (storeContent None no_faults (ContentString hello) ''md'' ''text/markdown'' None ?st1)
          = Inr ?ref"
    using C8_put_fails_with_backend_rejection
            [of None no_faults "ContentString hello" "''md''" "''text/markdown''" None ?st1]
    by (simp add: b no_faults_def)
  moreover have "fst (storeContent None (reject_file_save (ApiError 403 ''Forbidden''))
            (ContentString hello) ''md'' ''text/markdown'' None Map.empty)
          = Inl (ApiError 403 ''Forbidden'')"
    using C8_put_fails_with_backend_rejection
            [of None "reject_file_save (ApiError 403 ''Forbidden'')" "ContentString hello"
                "''md''" "''text/markdown''" None Map.empty "ApiError 403 ''Forbidden''"]
    by (simp add: b reject_file_save_def)
  ultimately show ?thesis
    using occupied by simp
qed

text \<open>
  C10 (the wrappers ignore the package). \<^verbatim>\<open>storeReadme\<close>, \<^verbatim>\<open>storeAnalysisResults\<close> and
  \<^verbatim>\<open>storeLogOutput\<close> never use their arguments \<^verbatim>\<open>packageName\<close> and \<^verbatim>\<open>packageVersion\<close>: with
  the same content, two calls with any package names and versions return the same
  result and leave the same backend state.
\<close>

theorem C10_wrappers_ignore_package:
  "storeReadme project flt readme packageName packageVersion st
     = storeReadme project flt readme packageName' packageVersion' st
   \<and> storeAnalysisResults stringify project flt results packageName packageVersion st
     = storeAnalysisResults stringify project flt results packageName' packageVersion' st
   \<and> storeLogOutput project flt log packageName packageVersion st
     = storeLogOutput project flt log packageName' packageVersion' st"
  by (simp add: storeReadme_def storeAnalysisResults_def storeLogOutput_def)

end
